theory Spec2Isabelle
  imports Main
begin

section \<open>Data model of \<open>thumbnails/files.py\<close>\<close>

text \<open>
  Exceptions are values. \<open>AttributeError\<close> and \<open>KeyError\<close> are the two the module raises
  itself (the first with the attribute name, the second with the missing dictionary key);
  \<open>ValueError\<close> and \<open>NotImplementedError\<close> are the ones its tests expect from its
  collaborators; \<open>BackendError\<close> stands for any other exception a collaborator lets
  escape.
\<close>

datatype exn =
    AttributeError string
  | KeyError string
  | ValueError
  | NotImplementedError
  | BackendError string

text \<open>
  Modelled from the spec: the descriptor record of the metadata backends
  (\<open>backends/metadata.py\<close> is not among the sources). The spec gives it a source id, a size
  name and a storage path; \<open>files.py\<close> itself reads only \<open>metadata.size\<close>.
\<close>

record metadata =
  source_name :: "string option"
  size :: string
  name :: string

text \<open>
  The two handles \<open>files.py\<close> constructs: \<open>Thumbnail(metadata=..., storage=...)\<close>, whose
  metadata may be \<open>None\<close>, and \<open>FallbackImage(url)\<close>. Storage and metadata backend objects
  are references (numbers).
\<close>

datatype image =
    Thumbnail "metadata option" nat
  | FallbackImage string

text \<open>
  One entry of \<open>conf.SIZES\<close>. The module reads a single option of it,
  \<open>conf.SIZES[name].get('FALLBACK_IMAGE_URL')\<close>, which is \<open>None\<close> when the key is not set.
\<close>

record size_spec =
  FALLBACK_IMAGE_URL :: "string option"

text \<open>
  \<open>ThumbnailManager\<close>. \<open>source_image\<close> is the bound file object, identified by its
  \<open>name\<close> attribute, which is \<open>None\<close> or empty when no file is set. \<open>thumbnails\<close> is the
  dictionary \<open>self._thumbnails\<close>.
\<close>

record manager =
  metadata_backend :: nat
  storage :: nat
  source_image :: "string option"
  thumbnails :: "string \<rightharpoonup> image"

text \<open>
  \<open>not self.source_image\<close>: a Django file object is truthy exactly when its name is a
  non-empty string.
\<close>

definition bound :: "string option \<Rightarrow> bool" where
  "bound n = (case n of None \<Rightarrow> False | Some s \<Rightarrow> s \<noteq> [])"

section \<open>Collaborators and the call log\<close>

text \<open>
  Every call that leaves the module is logged with its arguments, so that "no call was
  made" is a statement about the log.
\<close>

datatype call =
    ImagesGet "string option" string nat nat
  | ImagesCreate "string option" string nat nat
  | ImagesDelete "string option" string nat nat
  | GetThumbnails nat "string option"
  | GetMany nat "string option list" "string list option"
  | GetPath "string option" "string option"
  | StorageExists string
  | StorageDelete "string option"

record 'b world =
  calls :: "call list"
  state :: 'b

text \<open>
  The functions \<open>files.py\<close> imports and calls but does not define: \<open>images.get\<close>,
  \<open>images.create\<close>, \<open>images.delete\<close>, the metadata backend's \<open>get_thumbnails\<close>,
  \<open>metadata.get_path\<close>, and \<open>exists\<close> and \<open>delete\<close> of the storage backend returned by
  \<open>get_backend()\<close>. They are parameters: each is a function of its arguments and of the
  state \<open>'b\<close> behind the backends, returning either an exception or a value, and the new
  state.
\<close>

record 'b collaborators =
  images_get :: "string option \<Rightarrow> string \<Rightarrow> nat \<Rightarrow> nat \<Rightarrow> 'b \<Rightarrow> (exn + image option) \<times> 'b"
  images_create :: "string option \<Rightarrow> string \<Rightarrow> nat \<Rightarrow> nat \<Rightarrow> 'b \<Rightarrow> (exn + image) \<times> 'b"
  images_delete :: "string option \<Rightarrow> string \<Rightarrow> nat \<Rightarrow> nat \<Rightarrow> 'b \<Rightarrow> (exn + unit) \<times> 'b"
  get_thumbnails :: "nat \<Rightarrow> string option \<Rightarrow> 'b \<Rightarrow> (exn + metadata list) \<times> 'b"
  get_path :: "string option \<Rightarrow> string option \<Rightarrow> 'b \<Rightarrow> (exn + string option) \<times> 'b"
  backend_exists :: "string \<Rightarrow> 'b \<Rightarrow> (exn + bool) \<times> 'b"
  backend_delete :: "string option \<Rightarrow> 'b \<Rightarrow> (exn + bool) \<times> 'b"

definition logged :: "call \<Rightarrow> 'b \<Rightarrow> 'b world \<Rightarrow> 'b world" where
  "logged c b w = \<lparr>calls = calls w @ [c], state = b\<rparr>"

section \<open>\<open>ThumbnailManager\<close>\<close>

text \<open>\<open>__init__\<close>: the cache starts as the empty dictionary \<open>{}\<close>.\<close>

definition init :: "nat \<Rightarrow> nat \<Rightarrow> string option \<Rightarrow> manager" where
  "init mb st src =
     \<lparr>metadata_backend = mb, storage = st, source_image = src, thumbnails = Map.empty\<rparr>"

text \<open>\<open>create\<close>: one call of \<open>images.create\<close>; the manager is not touched.\<close>

definition create ::
  "'b collaborators \<Rightarrow> manager \<Rightarrow> string \<Rightarrow> 'b world \<Rightarrow> (exn + image) \<times> manager \<times> 'b world"
where
  "create env m sz w =
     (case images_create env (source_image m) sz (metadata_backend m) (storage m) (state w) of
        (r, b) \<Rightarrow>
          (r, m, logged (ImagesCreate (source_image m) sz (metadata_backend m) (storage m)) b w))"

text \<open>
  \<open>get_thumbnail(size, create=True)\<close>. The body never reads its \<open>create\<close> argument
  (\<open>create'\<close> here): on a miss in the cache and in \<open>images.get\<close> it calls \<open>self.create\<close>.
\<close>

definition get_thumbnail ::
  "'b collaborators \<Rightarrow> manager \<Rightarrow> string \<Rightarrow> bool \<Rightarrow> 'b world
     \<Rightarrow> (exn + image) \<times> manager \<times> 'b world"
where
  "get_thumbnail env m sz create' w =
     (case thumbnails m sz of
        Some t \<Rightarrow> (Inr t, m, w)
      | None \<Rightarrow>
          (case images_get env (source_image m) sz (metadata_backend m) (storage m) (state w) of
             (r, b) \<Rightarrow>
               (let w1 = logged (ImagesGet (source_image m) sz (metadata_backend m) (storage m)) b w
                in case r of
                     Inl e \<Rightarrow> (Inl e, m, w1)
                   | Inr (Some t) \<Rightarrow> (Inr t, m\<lparr>thumbnails := (thumbnails m)(sz \<mapsto> t)\<rparr>, w1)
                   | Inr None \<Rightarrow>
                       (case create env m sz w1 of
                          (Inl e, m2, w2) \<Rightarrow> (Inl e, m2, w2)
                        | (Inr t, m2, w2) \<Rightarrow>
                            (Inr t, m2\<lparr>thumbnails := (thumbnails m2)(sz \<mapsto> t)\<rparr>, w2)))))"

text \<open>
  \<open>__getattr__\<close>, which Python calls for an attribute name that normal lookup does not
  resolve. \<open>SIZES\<close> is \<open>conf.SIZES\<close>. \<open>if fallback_image_url:\<close> is false for \<open>None\<close> and for
  the empty string.
\<close>

definition getattr ::
  "(string \<rightharpoonup> size_spec) \<Rightarrow> 'b collaborators \<Rightarrow> manager \<Rightarrow> string \<Rightarrow> 'b world
     \<Rightarrow> (exn + image) \<times> manager \<times> 'b world"
where
  "getattr SIZES env m nm w =
     (case SIZES nm of
        Some spec \<Rightarrow>
          (if \<not> bound (source_image m) then
             (case FALLBACK_IMAGE_URL spec of
                Some u \<Rightarrow>
                  (if u \<noteq> [] then (Inr (FallbackImage u), m, w)
                   else (Inr (Thumbnail None (storage m)), m, w))
              | None \<Rightarrow> (Inr (Thumbnail None (storage m)), m, w))
           else get_thumbnail env m nm True w)
      | None \<Rightarrow> (Inl (AttributeError nm), m, w))"

text \<open>
  The loop of \<open>all\<close>: \<open>self._thumbnails[metadata.size] = Thumbnail(metadata, storage)\<close> for
  each descriptor in turn, a later one overwriting an earlier one of the same size.
\<close>

fun merge_metadatas :: "nat \<Rightarrow> metadata list \<Rightarrow> (string \<rightharpoonup> image) \<Rightarrow> (string \<rightharpoonup> image)" where
  "merge_metadatas st [] c = c"
| "merge_metadatas st (md # mds) c = merge_metadatas st mds (c(size md \<mapsto> Thumbnail (Some md) st))"

definition all ::
  "'b collaborators \<Rightarrow> manager \<Rightarrow> 'b world \<Rightarrow> (exn + (string \<rightharpoonup> image)) \<times> manager \<times> 'b world"
where
  "all env m w =
     (case get_thumbnails env (metadata_backend m) (source_image m) (state w) of
        (r, b) \<Rightarrow>
          (let w1 = logged (GetThumbnails (metadata_backend m) (source_image m)) b w
           in case r of
                Inl e \<Rightarrow> (Inl e, m, w1)
              | Inr mds \<Rightarrow>
                  (let c = merge_metadatas (storage m) mds (thumbnails m)
                   in (Inr c, m\<lparr>thumbnails := c\<rparr>, w1))))"

text \<open>
  \<open>ThumbnailManager.delete\<close>: \<open>images.delete\<close> first, then \<open>del(self._thumbnails[size])\<close>,
  which raises \<open>KeyError\<close> when the key is not in the dictionary.
\<close>

definition delete ::
  "'b collaborators \<Rightarrow> manager \<Rightarrow> string \<Rightarrow> 'b world \<Rightarrow> (exn + unit) \<times> manager \<times> 'b world"
where
  "delete env m sz w =
     (case images_delete env (source_image m) sz (metadata_backend m) (storage m) (state w) of
        (r, b) \<Rightarrow>
          (let w1 = logged (ImagesDelete (source_image m) sz (metadata_backend m) (storage m)) b w
           in case r of
                Inl e \<Rightarrow> (Inl e, m, w1)
              | Inr u \<Rightarrow>
                  (case thumbnails m sz of
                     None \<Rightarrow> (Inl (KeyError sz), m, w1)
                   | Some t \<Rightarrow> (Inr (), m\<lparr>thumbnails := (thumbnails m)(sz := None)\<rparr>, w1))))"

section \<open>The module-level functions \<open>exists\<close> and \<open>delete\<close>\<close>

definition files_exists ::
  "'b collaborators \<Rightarrow> string option \<Rightarrow> string option \<Rightarrow> 'b world \<Rightarrow> (exn + bool) \<times> 'b world"
where
  "files_exists env src sz w =
     (case get_path env src sz (state w) of
        (r, b) \<Rightarrow>
          (let w1 = logged (GetPath src sz) b w
           in case r of
                Inl e \<Rightarrow> (Inl e, w1)
              | Inr (Some p) \<Rightarrow>
                  (case backend_exists env p (state w1) of
                     (r2, b2) \<Rightarrow> (r2, logged (StorageExists p) b2 w1))
              | Inr None \<Rightarrow> (Inr False, w1)))"

definition files_delete ::
  "'b collaborators \<Rightarrow> string option \<Rightarrow> string option \<Rightarrow> 'b world \<Rightarrow> (exn + bool) \<times> 'b world"
where
  "files_delete env src sz w =
     (case get_path env src sz (state w) of
        (r, b) \<Rightarrow>
          (let w1 = logged (GetPath src sz) b w
           in case r of
                Inl e \<Rightarrow> (Inl e, w1)
              | Inr p \<Rightarrow>
                  (case backend_delete env p (state w1) of
                     (r2, b2) \<Rightarrow> (r2, logged (StorageDelete p) b2 w1))))"

section \<open>A reference store\<close>

text \<open>
  Modelled from the spec: \<open>images.py\<close>, \<open>metadata.py\<close> and the backends are not among the
  sources. This store follows the spec's contracts for them: at most one descriptor per
  (source, size), written by generation under a blob name that no earlier generation
  used, the last write winning; lookup of one or all descriptors of a source; removal of
  blob and descriptor. It serves to run the module on concrete inputs.
\<close>

record store =
  descriptors :: "metadata list"
  blobs :: "string list"
  counter :: nat

definition is_for :: "string option \<Rightarrow> string \<Rightarrow> metadata \<Rightarrow> bool" where
  "is_for src sz md = (source_name md = src \<and> size md = sz)"

definition fresh_name :: "string \<Rightarrow> nat \<Rightarrow> string" where
  "fresh_name sz n = sz @ ''_'' @ replicate n (CHR ''i'')"

definition store_get ::
  "string option \<Rightarrow> string \<Rightarrow> nat \<Rightarrow> nat \<Rightarrow> store \<Rightarrow> (exn + image option) \<times> store"
where
  "store_get src sz mb st b =
     (Inr (map_option (\<lambda>md. Thumbnail (Some md) st) (find (is_for src sz) (descriptors b))), b)"

definition store_create ::
  "string option \<Rightarrow> string \<Rightarrow> nat \<Rightarrow> nat \<Rightarrow> store \<Rightarrow> (exn + image) \<times> store"
where
  "store_create src sz mb st b =
     (let md = \<lparr>source_name = src, size = sz, name = fresh_name sz (counter b)\<rparr>
      in (Inr (Thumbnail (Some md) st),
          \<lparr>descriptors = md # filter (\<lambda>d. \<not> is_for src sz d) (descriptors b),
           blobs = name md # blobs b,
           counter = Suc (counter b)\<rparr>))"

definition store_delete ::
  "string option \<Rightarrow> string \<Rightarrow> nat \<Rightarrow> nat \<Rightarrow> store \<Rightarrow> (exn + unit) \<times> store"
where
  "store_delete src sz mb st b =
     (Inr (),
      b\<lparr>descriptors := filter (\<lambda>d. \<not> is_for src sz d) (descriptors b),
        blobs := filter (\<lambda>p. p \<notin> set (map name (filter (is_for src sz) (descriptors b))))
                   (blobs b)\<rparr>)"

definition store_get_thumbnails ::
  "nat \<Rightarrow> string option \<Rightarrow> store \<Rightarrow> (exn + metadata list) \<times> store"
where
  "store_get_thumbnails mb src b = (Inr (filter (\<lambda>d. source_name d = src) (descriptors b)), b)"

text \<open>With no size argument the default size's path is resolved.\<close>

definition store_get_path ::
  "string option \<Rightarrow> string option \<Rightarrow> store \<Rightarrow> (exn + string option) \<times> store"
where
  "store_get_path src sz b =
     (Inr (map_option name
        (find (is_for src (case sz of None \<Rightarrow> ''default'' | Some s \<Rightarrow> s)) (descriptors b))), b)"

definition store_exists :: "string \<Rightarrow> store \<Rightarrow> (exn + bool) \<times> store" where
  "store_exists p b = (Inr (p \<in> set (blobs b)), b)"

text \<open>A blob store asked to delete the path \<open>None\<close> rejects the call.\<close>

definition store_delete_path :: "string option \<Rightarrow> store \<Rightarrow> (exn + bool) \<times> store" where
  "store_delete_path p b =
     (case p of
        None \<Rightarrow> (Inl ValueError, b)
      | Some q \<Rightarrow> (Inr (q \<in> set (blobs b)), b\<lparr>blobs := filter (\<lambda>x. x \<noteq> q) (blobs b)\<rparr>))"

definition ref_env :: "store collaborators" where
  "ref_env =
     \<lparr>images_get = store_get, images_create = store_create, images_delete = store_delete,
      get_thumbnails = store_get_thumbnails, get_path = store_get_path,
      backend_exists = store_exists, backend_delete = store_delete_path\<rparr>"

text \<open>
  Concrete inputs, after the test settings: three sizes, of which \<open>default\<close> has a
  fallback URL; a store with nothing in it; a manager bound to \<open>avatars/tests.png\<close> and
  one bound to no file.
\<close>

definition SIZES0 :: "string \<rightharpoonup> size_spec" where
  "SIZES0 =
     [''small'' \<mapsto> \<lparr>FALLBACK_IMAGE_URL = None\<rparr>,
      ''default'' \<mapsto> \<lparr>FALLBACK_IMAGE_URL = Some ''/static/default.png''\<rparr>,
      ''large'' \<mapsto> \<lparr>FALLBACK_IMAGE_URL = None\<rparr>]"

definition w0 :: "store world" where
  "w0 = \<lparr>calls = [], state = \<lparr>descriptors = [], blobs = [], counter = 0\<rparr>\<rparr>"

definition m_avatar :: manager where
  "m_avatar = init 0 0 (Some ''avatars/tests.png'')"

definition m_nofile :: manager where
  "m_nofile = init 0 0 None"

definition md_small :: metadata where
  "md_small = \<lparr>source_name = Some ''avatars/tests.png'', size = ''small'', name = ''small_''\<rparr>"

definition md_large :: metadata where
  "md_large = \<lparr>source_name = Some ''avatars/tests.png'', size = ''large'', name = ''large_''\<rparr>"

text \<open>Stores that hold one generated thumbnail of the avatar, small or large.\<close>

definition w_small :: "store world" where
  "w_small = \<lparr>calls = [], state = \<lparr>descriptors = [md_small], blobs = [''small_''], counter = 1\<rparr>\<rparr>"

definition w_large :: "store world" where
  "w_large = \<lparr>calls = [], state = \<lparr>descriptors = [md_large], blobs = [''large_''], counter = 1\<rparr>\<rparr>"

text \<open>Managers of the avatar that have one size in their cache.\<close>

definition m_small_cached :: manager where
  "m_small_cached = m_avatar\<lparr>thumbnails := [''small'' \<mapsto> Thumbnail (Some md_small) 0]\<rparr>"

definition m_large_cached :: manager where
  "m_large_cached = m_avatar\<lparr>thumbnails := [''large'' \<mapsto> Thumbnail (Some md_large) 0]\<rparr>"

definition m_lrge_cached :: manager where
  "m_lrge_cached =
     m_avatar\<lparr>thumbnails :=
       [''lrge'' \<mapsto> Thumbnail (Some (md_large\<lparr>size := ''lrge'', name := ''lrge_''\<rparr>)) 0]\<rparr>"

section \<open>The \<open>url\<close> of a handle\<close>

text \<open>
  Modelled from the spec: the classes \<open>Thumbnail\<close> and \<open>FallbackImage\<close> live in
  \<open>images.py\<close>, which is not among the sources. A fallback image resolves to its static
  URL; a thumbnail resolves through its storage (\<open>storage_url\<close>, a parameter) to the URL
  of its descriptor's path, and with no descriptor the access fails, as "unresolvable: no
  source" in the spec and as \<open>ValueError\<close> in \<open>test_fallback_image\<close>.
\<close>

definition url :: "(nat \<Rightarrow> string \<Rightarrow> string) \<Rightarrow> image \<Rightarrow> exn + string" where
  "url storage_url img =
     (case img of
        FallbackImage u \<Rightarrow> Inr u
      | Thumbnail None st \<Rightarrow> Inl ValueError
      | Thumbnail (Some md) st \<Rightarrow> Inr (storage_url st (name md)))"

section \<open>The fetch coordinator\<close>

text \<open>
  Modelled from the spec: \<open>fetch_thumbnails\<close> is defined in \<open>fields.py\<close>, which is not among
  the sources; only its tests are. A metadata backend either supports the bulk query
  \<open>get_many\<close> or does not.
\<close>

record 'b batch_backends =
  supports_batch :: "nat \<Rightarrow> bool"
  get_many ::
    "nat \<Rightarrow> string option list \<Rightarrow> string list option \<Rightarrow> 'b
       \<Rightarrow> (exn + (string option \<Rightarrow> metadata list)) \<times> 'b"

text \<open>Modelled from the spec: with sizes given, only descriptors of those sizes are merged.\<close>

definition requested :: "string list option \<Rightarrow> metadata \<Rightarrow> bool" where
  "requested sizes md = (case sizes of None \<Rightarrow> True | Some ss \<Rightarrow> size md \<in> set ss)"

text \<open>
  Modelled from the spec: the descriptors found for an image are merged into its manager's
  cache as \<open>all\<close> merges them.
\<close>

definition prefetch_into ::
  "(string option \<Rightarrow> metadata list) \<Rightarrow> string list option \<Rightarrow> manager \<Rightarrow> manager"
where
  "prefetch_into found sizes m =
     m\<lparr>thumbnails :=
         merge_metadatas (storage m) (filter (requested sizes) (found (source_image m)))
           (thumbnails m)\<rparr>"

text \<open>
  Modelled from the spec: the groups are the distinct backends of the images, taken in
  turn. A group whose backend has no bulk query ends the call with the "unsupported
  backend" error (\<open>NotImplementedError\<close> in \<open>test_fetch_non_redis\<close>); otherwise one
  \<open>get_many\<close> serves all images of the group.
\<close>

fun fetch_groups ::
  "'b batch_backends \<Rightarrow> nat list \<Rightarrow> string list option \<Rightarrow> manager list \<Rightarrow> 'b world
     \<Rightarrow> (exn + unit) \<times> manager list \<times> 'b world"
where
  "fetch_groups bk [] sizes ms w = (Inr (), ms, w)"
| "fetch_groups bk (g # gs) sizes ms w =
     (if \<not> supports_batch bk g then (Inl NotImplementedError, ms, w)
      else
        (let srcs = map source_image (filter (\<lambda>m. metadata_backend m = g) ms)
         in case get_many bk g srcs sizes (state w) of
              (r, b) \<Rightarrow>
                (let w1 = logged (GetMany g srcs sizes) b w
                 in case r of
                      Inl e \<Rightarrow> (Inl e, ms, w1)
                    | Inr found \<Rightarrow>
                        fetch_groups bk gs sizes
                          (map (\<lambda>m. if metadata_backend m = g then prefetch_into found sizes m
                                     else m) ms)
                          w1)))"

definition fetch_thumbnails ::
  "'b batch_backends \<Rightarrow> manager list \<Rightarrow> string list option \<Rightarrow> 'b world
     \<Rightarrow> (exn + unit) \<times> manager list \<times> 'b world"
where
  "fetch_thumbnails bk images sizes w =
     fetch_groups bk (remdups (map metadata_backend images)) sizes images w"

text \<open>
  Modelled from the spec: two backends over the reference store, the table-backed one
  (number 0, no bulk query) and the key/value one (number 1).
\<close>

definition ref_backends :: "store batch_backends" where
  "ref_backends =
     \<lparr>supports_batch = (\<lambda>g. g = 1),
      get_many = (\<lambda>g srcs sizes b.
        (Inr (\<lambda>src. if src \<in> set srcs then filter (\<lambda>d. source_name d = src) (descriptors b)
                     else []), b))\<rparr>"

section \<open>Facts shared by the proofs\<close>

lemmas manager_defs =
  create_def get_thumbnail_def getattr_def all_def delete_def
  files_exists_def files_delete_def logged_def init_def bound_def

lemmas store_defs =
  ref_env_def store_get_def store_create_def store_delete_def store_get_thumbnails_def
  store_get_path_def store_exists_def store_delete_path_def is_for_def fresh_name_def
  SIZES0_def w0_def m_avatar_def m_nofile_def md_small_def md_large_def w_small_def
  w_large_def m_small_cached_def m_large_cached_def m_lrge_cached_def

lemma dom_merge_metadatas:
  "dom (merge_metadatas st mds c) = dom c \<union> size ` set mds"
  by (induction mds arbitrary: c) auto

lemma merge_metadatas_other:
  "s \<notin> size ` set mds \<Longrightarrow> merge_metadatas st mds c s = c s"
  by (induction mds arbitrary: c) auto

lemma find_snoc:
  "find P (xs @ [x]) = (case find P xs of None \<Rightarrow> (if P x then Some x else None) | Some y \<Rightarrow> Some y)"
  by (induction xs) auto

lemma merge_metadatas_lookup:
  "merge_metadatas st mds c s =
     (case find (\<lambda>md. size md = s) (rev mds) of
        None \<Rightarrow> c s
      | Some md \<Rightarrow> Some (Thumbnail (Some md) st))"
  by (induction mds arbitrary: c) (auto simp: find_snoc split: option.splits)

lemma merge_metadatas_distinct:
  "distinct (map size mds) \<Longrightarrow> md \<in> set mds \<Longrightarrow>
     merge_metadatas st mds c (size md) = Some (Thumbnail (Some md) st)"
proof (induction mds arbitrary: c)
  case Nil
  then show ?case by simp
next
  case (Cons x xs)
  show ?case
  proof (cases "md = x")
    case True
    with Cons.prems have "size x \<notin> size ` set xs"
      by simp
    with True show ?thesis
      by (simp add: merge_metadatas_other)
  next
    case False
    with Cons show ?thesis
      by simp
  qed
qed

section \<open>Deleting\<close>

text \<open>
  C8. For a size that is not in the manager's cache, \<open>ThumbnailManager.delete\<close> first has
  \<open>images.delete\<close> remove blob and descriptor and then raises \<open>KeyError\<close> on the cache
  entry: when \<open>images.delete\<close> returns, the call ends in \<open>KeyError\<close> with the backends
  already in the state the deletion left, the deletion logged, and the manager unchanged.
\<close>

theorem delete_uncached_raises_after_backend_delete:
  assumes "thumbnails m sz = None"
    and "images_delete env (source_image m) sz (metadata_backend m) (storage m) (state w) = (Inr (), b)"
  shows "delete env m sz w =
           (Inl (KeyError sz), m,
            \<lparr>calls = calls w @ [ImagesDelete (source_image m) sz (metadata_backend m) (storage m)],
             state = b\<rparr>)"
  using assms by (simp add: delete_def logged_def)

text \<open>
  The store holds the large thumbnail of the avatar and the manager has not cached it:
  \<open>delete\<close> ends in \<open>KeyError\<close>, and descriptor and blob are gone.
\<close>

theorem delete_uncached_raises_after_backend_delete_witness:
  "delete ref_env m_avatar ''large'' w_large =
     (Inl (KeyError ''large''), m_avatar,
      \<lparr>calls = [ImagesDelete (Some ''avatars/tests.png'') ''large'' 0 0],
       state = \<lparr>descriptors = [], blobs = [], counter = 1\<rparr>\<rparr>)
   \<and> descriptors (state w_large) = [md_large]"
proof -
  have h1: "thumbnails m_avatar ''large'' = None"
    by (simp add: m_avatar_def init_def)
  have h2: "images_delete ref_env (source_image m_avatar) ''large'' (metadata_backend m_avatar)
              (storage m_avatar) (state w_large)
            = (Inr (), \<lparr>descriptors = [], blobs = [], counter = 1\<rparr>)"
    by (simp add: store_defs init_def)
  show ?thesis
    using delete_uncached_raises_after_backend_delete [OF h1 h2]
    by (simp add: m_avatar_def init_def w_large_def)
qed

text \<open>
  C9. When \<open>get_path\<close> yields \<open>None\<close>, the function \<open>exists\<close> returns \<open>False\<close> and the only
  call it makes is \<open>get_path\<close>; the function \<open>delete\<close> has no such guard: it calls the
  storage backend's \<open>delete\<close> with \<open>None\<close> and returns whatever that call gives.
\<close>

theorem exists_guards_none_path_delete_does_not:
  assumes "get_path env src sz (state w) = (Inr None, b)"
  shows "files_exists env src sz w = (Inr False, \<lparr>calls = calls w @ [GetPath src sz], state = b\<rparr>)
       \<and> files_delete env src sz w =
           (fst (backend_delete env None b),
            \<lparr>calls = calls w @ [GetPath src sz, StorageDelete None],
             state = snd (backend_delete env None b)\<rparr>)"
  using assms by (simp add: files_exists_def files_delete_def logged_def split: prod.splits)

text \<open>
  The avatar has no large thumbnail in the store: \<open>exists\<close> is \<open>False\<close> after one
  \<open>get_path\<close>; \<open>delete\<close> hands \<open>None\<close> to the store, which rejects it.
\<close>

theorem exists_guards_none_path_delete_does_not_witness:
  "files_exists ref_env (Some ''avatars/tests.png'') (Some ''large'') w_small =
     (Inr False,
      \<lparr>calls = [GetPath (Some ''avatars/tests.png'') (Some ''large'')], state = state w_small\<rparr>)
   \<and> files_delete ref_env (Some ''avatars/tests.png'') (Some ''large'') w_small =
     (Inl ValueError,
      \<lparr>calls = [GetPath (Some ''avatars/tests.png'') (Some ''large''), StorageDelete None],
       state = state w_small\<rparr>)"
proof -
  have h: "get_path ref_env (Some ''avatars/tests.png'') (Some ''large'') (state w_small)
           = (Inr None, state w_small)"
    by (simp add: store_defs)
  show ?thesis
    using exists_guards_none_path_delete_does_not [OF h]
    by (simp add: store_defs)
qed

section \<open>Attribute access with no file bound\<close>

text \<open>
  C10. For a registered size and a manager whose source image is falsy, \<open>__getattr__\<close>
  returns a \<open>FallbackImage\<close> or a \<open>Thumbnail\<close> without metadata, leaves the manager (its
  cache included) and the backends as they were, with no call logged, and the result is
  the same whatever the cache holds, whatever the collaborators are and whatever state
  the backends are in: nothing is read from the cache and nothing is stored in it.
\<close>

theorem getattr_unbound_leaves_cache_and_backends_alone:
  assumes "SIZES nm = Some spec" and "\<not> bound (source_image m)"
  shows "((\<exists>u. fst (getattr SIZES env m nm w) = Inr (FallbackImage u))
            \<or> fst (getattr SIZES env m nm w) = Inr (Thumbnail None (storage m)))
       \<and> snd (getattr SIZES env m nm w) = (m, w)
       \<and> getattr SIZES env' (m\<lparr>thumbnails := c\<rparr>) nm w' =
           (fst (getattr SIZES env m nm w), m\<lparr>thumbnails := c\<rparr>, w')"
  using assms by (auto simp: getattr_def split: option.splits)

text \<open>
  The manager with no file, asked for \<open>default\<close>: the same answer with an empty cache
  over an empty store as with a filled cache over a filled store.
\<close>

theorem getattr_unbound_leaves_cache_and_backends_alone_witness:
  "snd (getattr SIZES0 ref_env m_nofile ''default'' w0) = (m_nofile, w0)
   \<and> getattr SIZES0 ref_env (m_nofile\<lparr>thumbnails := thumbnails m_large_cached\<rparr>) ''default'' w_large
       = (fst (getattr SIZES0 ref_env m_nofile ''default'' w0),
          m_nofile\<lparr>thumbnails := thumbnails m_large_cached\<rparr>, w_large)"
proof -
  have h1: "SIZES0 ''default'' = Some \<lparr>FALLBACK_IMAGE_URL = Some ''/static/default.png''\<rparr>"
    by (simp add: SIZES0_def)
  have h2: "\<not> bound (source_image m_nofile)"
    by (simp add: m_nofile_def init_def bound_def)
  show ?thesis
    using getattr_unbound_leaves_cache_and_backends_alone
            [where SIZES = SIZES0 and env = ref_env and env' = ref_env and w = w0
               and w' = w_large and c = "thumbnails m_large_cached", OF h1 h2]
    by simp
qed

section \<open>Looking a size up\<close>

text \<open>The \<open>create\<close> argument of \<open>get_thumbnail\<close> has no effect on what the call does.\<close>

lemma get_thumbnail_ignores_create:
  "get_thumbnail env m sz False w = get_thumbnail env m sz True w"
  by (simp add: get_thumbnail_def)

text \<open>
  C1. The claim: with a source bound and no descriptor for the size,
  \<open>get_thumbnail(size, create=False)\<close> returns an absent handle and generates nothing. The
  code at that input: the avatar's manager, nothing cached, nothing stored, asked for
  \<open>small\<close> with \<open>create=False\<close>. The call returns a thumbnail, caches it, and the log shows
  \<open>images.get\<close> followed by \<open>images.create\<close>, which left a new descriptor and a new blob in
  the store.
\<close>

theorem get_thumbnail_create_false_generates:
  "fst (get_thumbnail ref_env m_avatar ''small'' False w0) = Inr (Thumbnail (Some md_small) 0)
   \<and> thumbnails (fst (snd (get_thumbnail ref_env m_avatar ''small'' False w0))) ''small''
       = Some (Thumbnail (Some md_small) 0)
   \<and> snd (snd (get_thumbnail ref_env m_avatar ''small'' False w0)) =
       \<lparr>calls = [ImagesGet (Some ''avatars/tests.png'') ''small'' 0 0,
                 ImagesCreate (Some ''avatars/tests.png'') ''small'' 0 0],
        state = \<lparr>descriptors = [md_small], blobs = [''small_''], counter = 1\<rparr>\<rparr>
   \<and> descriptors (state w0) = []"
  by (simp add: manager_defs store_defs Let_def)

text \<open>
  The size \<open>lrge\<close> is not registered. \<open>get_thumbnail\<close> does not look at the registry: with
  \<open>lrge\<close> in the cache it returns the cached thumbnail and no error, and with an empty
  cache the first thing it does is query \<open>images.get\<close>.
\<close>

theorem get_thumbnail_unknown_size_counterexample:
  "SIZES0 ''lrge'' = None
   \<and> get_thumbnail ref_env m_lrge_cached ''lrge'' True w0
       = (Inr (Thumbnail (Some (md_large\<lparr>size := ''lrge'', name := ''lrge_''\<rparr>)) 0),
          m_lrge_cached, w0)
   \<and> hd (calls (snd (snd (get_thumbnail ref_env m_avatar ''lrge'' True w0))))
       = ImagesGet (Some ''avatars/tests.png'') ''lrge'' 0 0"
  by (simp add: manager_defs store_defs Let_def)

text \<open>
  C2, amended. For a size name that is not in the size registry, attribute access through
  \<open>__getattr__\<close> fails with \<open>AttributeError\<close>, an error and not an absent result, and leaves
  manager and backends untouched with no call logged. \<open>get_thumbnail\<close> called directly makes
  no registry check: it returns the cached handle of that name when there is one, and
  otherwise its first step is the \<open>images.get\<close> query.
\<close>

theorem getattr_rejects_unknown_size:
  assumes "SIZES nm = None"
  shows "getattr SIZES env m nm w = (Inl (AttributeError nm), m, w)
       \<and> (\<forall>t. thumbnails m nm = Some t \<longrightarrow> get_thumbnail env m nm c w = (Inr t, m, w))
       \<and> (thumbnails m nm = None \<longrightarrow>
            take (Suc (length (calls w))) (calls (snd (snd (get_thumbnail env m nm c w))))
              = calls w @ [ImagesGet (source_image m) nm (metadata_backend m) (storage m)])"
  using assms
  by (auto simp: getattr_def get_thumbnail_def create_def logged_def Let_def
           split: prod.splits sum.splits option.splits)

text \<open>The manager that has \<open>lrge\<close> cached: attribute access fails, the direct call answers.\<close>

theorem getattr_rejects_unknown_size_witness:
  "getattr SIZES0 ref_env m_lrge_cached ''lrge'' w0
     = (Inl (AttributeError ''lrge''), m_lrge_cached, w0)
   \<and> get_thumbnail ref_env m_lrge_cached ''lrge'' True w0
     = (Inr (Thumbnail (Some (md_large\<lparr>size := ''lrge'', name := ''lrge_''\<rparr>)) 0),
        m_lrge_cached, w0)"
proof -
  have h: "SIZES0 ''lrge'' = None"
    by (simp add: SIZES0_def)
  have c: "thumbnails m_lrge_cached ''lrge''
           = Some (Thumbnail (Some (md_large\<lparr>size := ''lrge'', name := ''lrge_''\<rparr>)) 0)"
    by (simp add: m_lrge_cached_def)
  from getattr_rejects_unknown_size
         [where SIZES = SIZES0 and env = ref_env and m = m_lrge_cached and w = w0 and c = True,
          OF h] c
  show ?thesis by simp
qed

section \<open>Creating\<close>

text \<open>
  The manager has the small thumbnail cached when \<open>create\<close> generates it again under a new
  blob name: the following \<open>get_thumbnail\<close> still returns the old one, which differs from
  what \<open>create\<close> returned. And on a manager with an empty cache, \<open>get_thumbnail\<close> after
  \<open>create\<close> goes to \<open>images.get\<close>.
\<close>

theorem create_does_not_refresh_cache_counterexample:
  "fst (create ref_env m_small_cached ''small'' w_small)
     = Inr (Thumbnail (Some (md_small\<lparr>name := ''small_i''\<rparr>)) 0)
   \<and> fst (get_thumbnail ref_env (fst (snd (create ref_env m_small_cached ''small'' w_small)))
            ''small'' True (snd (snd (create ref_env m_small_cached ''small'' w_small))))
     = Inr (Thumbnail (Some md_small) 0)
   \<and> Thumbnail (Some md_small) 0 \<noteq> Thumbnail (Some (md_small\<lparr>name := ''small_i''\<rparr>)) 0
   \<and> calls (snd (snd (get_thumbnail ref_env (fst (snd (create ref_env m_avatar ''small'' w0)))
            ''small'' True (snd (snd (create ref_env m_avatar ''small'' w0))))))
     = [ImagesCreate (Some ''avatars/tests.png'') ''small'' 0 0,
        ImagesGet (Some ''avatars/tests.png'') ''small'' 0 0]"
  by (simp add: manager_defs store_defs Let_def)

text \<open>
  C3, amended. When \<open>images.create\<close> succeeds, \<open>create\<close> has made exactly that one call,
  returns the thumbnail \<open>images.create\<close> produced and leaves the manager as it was: the
  cache entry of the size is not overwritten. A following \<open>get_thumbnail\<close> of that size:
  when the size was cached before \<open>create\<close>, it is a cache hit with no backend call and
  returns the handle cached before; when the size was not cached, its first step is the
  \<open>images.get\<close> query, and when that query finds a thumbnail (the created one, if the
  store returns the descriptor just recorded) the call returns it and caches it, after
  which a further \<open>get_thumbnail\<close> is a cache hit that returns the same thumbnail with no
  further call.
\<close>

theorem create_leaves_cache_unchanged:
  assumes "images_create env (source_image m) sz (metadata_backend m) (storage m) (state w)
             = (Inr t, b)"
    and "w' = \<lparr>calls = calls w @ [ImagesCreate (source_image m) sz (metadata_backend m) (storage m)],
               state = b\<rparr>"
  shows "create env m sz w = (Inr t, m, w')
       \<and> (\<forall>t0. thumbnails m sz = Some t0 \<longrightarrow> get_thumbnail env m sz c w' = (Inr t0, m, w'))
       \<and> (thumbnails m sz = None \<longrightarrow>
            take (Suc (length (calls w'))) (calls (snd (snd (get_thumbnail env m sz c w'))))
              = calls w' @ [ImagesGet (source_image m) sz (metadata_backend m) (storage m)])
       \<and> (thumbnails m sz = None \<longrightarrow>
            (\<forall>t' b'. images_get env (source_image m) sz (metadata_backend m) (storage m) b
                        = (Inr (Some t'), b') \<longrightarrow>
               get_thumbnail env m sz c w' =
                 (Inr t', m\<lparr>thumbnails := (thumbnails m)(sz \<mapsto> t')\<rparr>,
                  \<lparr>calls = calls w' @ [ImagesGet (source_image m) sz (metadata_backend m) (storage m)],
                   state = b'\<rparr>)
               \<and> get_thumbnail env (m\<lparr>thumbnails := (thumbnails m)(sz \<mapsto> t')\<rparr>) sz c
                   \<lparr>calls = calls w' @ [ImagesGet (source_image m) sz (metadata_backend m) (storage m)],
                    state = b'\<rparr> =
                 (Inr t', m\<lparr>thumbnails := (thumbnails m)(sz \<mapsto> t')\<rparr>,
                  \<lparr>calls = calls w' @ [ImagesGet (source_image m) sz (metadata_backend m) (storage m)],
                   state = b'\<rparr>)))"
proof -
  from assms have 1: "create env m sz w = (Inr t, m, w')"
    by (simp add: create_def logged_def)
  have 2: "\<forall>t0. thumbnails m sz = Some t0 \<longrightarrow> get_thumbnail env m sz c w' = (Inr t0, m, w')"
    by (simp add: get_thumbnail_def)
  have 3: "thumbnails m sz = None \<longrightarrow>
            take (Suc (length (calls w'))) (calls (snd (snd (get_thumbnail env m sz c w'))))
              = calls w' @ [ImagesGet (source_image m) sz (metadata_backend m) (storage m)]"
    by (auto simp: get_thumbnail_def create_def logged_def Let_def
             split: prod.splits sum.splits option.splits)
  have 4: "thumbnails m sz = None \<longrightarrow>
            (\<forall>t' b'. images_get env (source_image m) sz (metadata_backend m) (storage m) b
                        = (Inr (Some t'), b') \<longrightarrow>
               get_thumbnail env m sz c w' =
                 (Inr t', m\<lparr>thumbnails := (thumbnails m)(sz \<mapsto> t')\<rparr>,
                  \<lparr>calls = calls w' @ [ImagesGet (source_image m) sz (metadata_backend m) (storage m)],
                   state = b'\<rparr>)
               \<and> get_thumbnail env (m\<lparr>thumbnails := (thumbnails m)(sz \<mapsto> t')\<rparr>) sz c
                   \<lparr>calls = calls w' @ [ImagesGet (source_image m) sz (metadata_backend m) (storage m)],
                    state = b'\<rparr> =
                 (Inr t', m\<lparr>thumbnails := (thumbnails m)(sz \<mapsto> t')\<rparr>,
                  \<lparr>calls = calls w' @ [ImagesGet (source_image m) sz (metadata_backend m) (storage m)],
                   state = b'\<rparr>))"
    using assms(2) by (simp add: get_thumbnail_def logged_def)
  from 1 2 3 4 show ?thesis
    by blast
qed

text \<open>
  On the manager that has the small thumbnail cached, \<open>create\<close> returns a thumbnail under
  a new name and \<open>get_thumbnail\<close> still answers the old one from the cache, the log
  staying at the one \<open>images.create\<close>. On the manager with an empty cache,
  \<open>get_thumbnail\<close> after \<open>create\<close> queries \<open>images.get\<close> and returns the thumbnail that
  \<open>create\<close> returned, now cached.
\<close>

theorem create_leaves_cache_unchanged_witness:
  "create ref_env m_small_cached ''small'' w_small
     = (Inr (Thumbnail (Some (md_small\<lparr>name := ''small_i''\<rparr>)) 0), m_small_cached,
        \<lparr>calls = [ImagesCreate (Some ''avatars/tests.png'') ''small'' 0 0],
         state = \<lparr>descriptors = [md_small\<lparr>name := ''small_i''\<rparr>],
                  blobs = [''small_i'', ''small_''], counter = 2\<rparr>\<rparr>)
   \<and> get_thumbnail ref_env m_small_cached ''small'' True
       \<lparr>calls = [ImagesCreate (Some ''avatars/tests.png'') ''small'' 0 0],
        state = \<lparr>descriptors = [md_small\<lparr>name := ''small_i''\<rparr>],
                 blobs = [''small_i'', ''small_''], counter = 2\<rparr>\<rparr>
     = (Inr (Thumbnail (Some md_small) 0), m_small_cached,
        \<lparr>calls = [ImagesCreate (Some ''avatars/tests.png'') ''small'' 0 0],
         state = \<lparr>descriptors = [md_small\<lparr>name := ''small_i''\<rparr>],
                  blobs = [''small_i'', ''small_''], counter = 2\<rparr>\<rparr>)
   \<and> create ref_env m_avatar ''small'' w0
     = (Inr (Thumbnail (Some md_small) 0), m_avatar,
        \<lparr>calls = [ImagesCreate (Some ''avatars/tests.png'') ''small'' 0 0],
         state = \<lparr>descriptors = [md_small], blobs = [''small_''], counter = 1\<rparr>\<rparr>)
   \<and> get_thumbnail ref_env m_avatar ''small'' True
       \<lparr>calls = [ImagesCreate (Some ''avatars/tests.png'') ''small'' 0 0],
        state = \<lparr>descriptors = [md_small], blobs = [''small_''], counter = 1\<rparr>\<rparr>
     = (Inr (Thumbnail (Some md_small) 0), m_small_cached,
        \<lparr>calls = [ImagesCreate (Some ''avatars/tests.png'') ''small'' 0 0,
                  ImagesGet (Some ''avatars/tests.png'') ''small'' 0 0],
         state = \<lparr>descriptors = [md_small], blobs = [''small_''], counter = 1\<rparr>\<rparr>)"
proof -
  let ?b2 = "\<lparr>descriptors = [md_small\<lparr>name := ''small_i''\<rparr>],
              blobs = [''small_i'', ''small_''], counter = 2\<rparr>"
  let ?b1 = "\<lparr>descriptors = [md_small], blobs = [''small_''], counter = 1\<rparr>"
  let ?log = "[ImagesCreate (Some ''avatars/tests.png'') ''small'' 0 0]"
  have h2: "images_create ref_env (source_image m_small_cached) ''small''
              (metadata_backend m_small_cached) (storage m_small_cached) (state w_small)
            = (Inr (Thumbnail (Some (md_small\<lparr>name := ''small_i''\<rparr>)) 0), ?b2)"
    by (simp add: manager_defs store_defs Let_def)
  have w2: "\<lparr>calls = ?log, state = ?b2\<rparr>
            = \<lparr>calls = calls w_small @ [ImagesCreate (source_image m_small_cached) ''small''
                  (metadata_backend m_small_cached) (storage m_small_cached)],
               state = ?b2\<rparr>"
    by (simp add: manager_defs store_defs)
  have c2: "thumbnails m_small_cached ''small'' = Some (Thumbnail (Some md_small) 0)"
    by (simp add: m_small_cached_def)
  have h1: "images_create ref_env (source_image m_avatar) ''small''
              (metadata_backend m_avatar) (storage m_avatar) (state w0)
            = (Inr (Thumbnail (Some md_small) 0), ?b1)"
    by (simp add: manager_defs store_defs Let_def)
  have w1: "\<lparr>calls = ?log, state = ?b1\<rparr>
            = \<lparr>calls = calls w0 @ [ImagesCreate (source_image m_avatar) ''small''
                  (metadata_backend m_avatar) (storage m_avatar)],
               state = ?b1\<rparr>"
    by (simp add: manager_defs store_defs)
  have c1: "thumbnails m_avatar ''small'' = None"
    by (simp add: manager_defs store_defs)
  have g1: "images_get ref_env (source_image m_avatar) ''small''
              (metadata_backend m_avatar) (storage m_avatar) ?b1
            = (Inr (Some (Thumbnail (Some md_small) 0)), ?b1)"
    by (simp add: manager_defs store_defs)
  have e1: "m_avatar\<lparr>thumbnails := (thumbnails m_avatar)(''small'' \<mapsto> Thumbnail (Some md_small) 0)\<rparr>
            = m_small_cached"
    by (simp add: manager_defs store_defs)
  have l1: "calls \<lparr>calls = ?log, state = ?b1\<rparr>
              @ [ImagesGet (source_image m_avatar) ''small'' (metadata_backend m_avatar)
                   (storage m_avatar)]
            = [ImagesCreate (Some ''avatars/tests.png'') ''small'' 0 0,
               ImagesGet (Some ''avatars/tests.png'') ''small'' 0 0]"
    by (simp add: manager_defs store_defs)
  from create_leaves_cache_unchanged [OF h2 w2, where c = True] c2
  have a: "create ref_env m_small_cached ''small'' w_small
             = (Inr (Thumbnail (Some (md_small\<lparr>name := ''small_i''\<rparr>)) 0), m_small_cached,
                \<lparr>calls = ?log, state = ?b2\<rparr>)
           \<and> get_thumbnail ref_env m_small_cached ''small'' True \<lparr>calls = ?log, state = ?b2\<rparr>
             = (Inr (Thumbnail (Some md_small) 0), m_small_cached, \<lparr>calls = ?log, state = ?b2\<rparr>)"
    by blast
  from create_leaves_cache_unchanged [OF h1 w1, where c = True] c1 g1
  have "create ref_env m_avatar ''small'' w0
             = (Inr (Thumbnail (Some md_small) 0), m_avatar, \<lparr>calls = ?log, state = ?b1\<rparr>)
           \<and> get_thumbnail ref_env m_avatar ''small'' True \<lparr>calls = ?log, state = ?b1\<rparr>
             = (Inr (Thumbnail (Some md_small) 0),
                m_avatar\<lparr>thumbnails := (thumbnails m_avatar)(''small'' \<mapsto> Thumbnail (Some md_small) 0)\<rparr>,
                \<lparr>calls = calls \<lparr>calls = ?log, state = ?b1\<rparr>
                   @ [ImagesGet (source_image m_avatar) ''small'' (metadata_backend m_avatar)
                        (storage m_avatar)],
                 state = ?b1\<rparr>)"
    by blast
  with e1 l1 have b: "create ref_env m_avatar ''small'' w0
             = (Inr (Thumbnail (Some md_small) 0), m_avatar, \<lparr>calls = ?log, state = ?b1\<rparr>)
           \<and> get_thumbnail ref_env m_avatar ''small'' True \<lparr>calls = ?log, state = ?b1\<rparr>
             = (Inr (Thumbnail (Some md_small) 0), m_small_cached,
                \<lparr>calls = [ImagesCreate (Some ''avatars/tests.png'') ''small'' 0 0,
                          ImagesGet (Some ''avatars/tests.png'') ''small'' 0 0],
                 state = ?b1\<rparr>)"
    by simp
  from a b show ?thesis
    by blast
qed

section \<open>All thumbnails of a source\<close>

text \<open>
  The manager has \<open>large\<close> cached and the store holds a descriptor for \<open>small\<close> only: the
  mapping \<open>all\<close> returns has both keys, which is not the set of sizes with a descriptor.
\<close>

theorem all_keeps_stale_cache_entries_counterexample:
  "\<not> isl (fst (all ref_env m_large_cached w_small))
   \<and> dom (projr (fst (all ref_env m_large_cached w_small))) = {''large'', ''small''}
   \<and> size ` set (projr (fst (get_thumbnails ref_env 0 (Some ''avatars/tests.png'') (state w_small))))
       = {''small''}
   \<and> dom (projr (fst (all ref_env m_large_cached w_small)))
       \<noteq> size ` set (projr (fst (get_thumbnails ref_env 0 (Some ''avatars/tests.png'')
                                    (state w_small))))"
  by (simp add: manager_defs store_defs Let_def insert_commute)

text \<open>
  C4, amended. When the metadata backend returns the descriptors of the source, \<open>all\<close>
  returns the cache after merging them in, and that mapping is the manager's new cache.
  A size with a descriptor maps to a \<open>Thumbnail\<close> of that descriptor and the manager's
  storage, whatever was cached for it before (of several descriptors of one size the last
  returned wins; with one descriptor per size, each descriptor is the entry of its size); a
  size without a descriptor keeps the entry cached before, if any. So the key set is the
  keys cached before together with the sizes of the descriptors. The one call made is
  \<open>get_thumbnails\<close>, so nothing is generated.
\<close>

theorem all_merges_descriptors_into_cache:
  assumes "get_thumbnails env (metadata_backend m) (source_image m) (state w) = (Inr mds, b)"
  shows "\<exists>c. all env m w =
               (Inr c, m\<lparr>thumbnails := c\<rparr>,
                \<lparr>calls = calls w @ [GetThumbnails (metadata_backend m) (source_image m)],
                 state = b\<rparr>)
            \<and> dom c = dom (thumbnails m) \<union> size ` set mds
            \<and> (\<forall>s. c s =
                  (case find (\<lambda>md. size md = s) (rev mds) of
                     None \<Rightarrow> thumbnails m s
                   | Some md \<Rightarrow> Some (Thumbnail (Some md) (storage m))))
            \<and> (distinct (map size mds) \<longrightarrow>
                  (\<forall>md \<in> set mds. c (size md) = Some (Thumbnail (Some md) (storage m))))
            \<and> (\<forall>s. s \<notin> size ` set mds \<longrightarrow> c s = thumbnails m s)"
proof -
  let ?c = "merge_metadatas (storage m) mds (thumbnails m)"
  from assms have "all env m w =
      (Inr ?c, m\<lparr>thumbnails := ?c\<rparr>,
       \<lparr>calls = calls w @ [GetThumbnails (metadata_backend m) (source_image m)], state = b\<rparr>)"
    by (simp add: all_def logged_def Let_def)
  moreover have "dom ?c = dom (thumbnails m) \<union> size ` set mds"
    by (rule dom_merge_metadatas)
  moreover have "\<forall>s. ?c s =
      (case find (\<lambda>md. size md = s) (rev mds) of
         None \<Rightarrow> thumbnails m s
       | Some md \<Rightarrow> Some (Thumbnail (Some md) (storage m)))"
    by (simp add: merge_metadatas_lookup)
  moreover have "distinct (map size mds) \<longrightarrow>
      (\<forall>md \<in> set mds. ?c (size md) = Some (Thumbnail (Some md) (storage m)))"
    by (simp add: merge_metadatas_distinct)
  moreover have "\<forall>s. s \<notin> size ` set mds \<longrightarrow> ?c s = thumbnails m s"
    by (simp add: merge_metadatas_other)
  ultimately show ?thesis
    by blast
qed

text \<open>
  The manager with \<open>large\<close> cached over the store that holds \<open>small\<close>: the result has both
  keys, \<open>large\<close> still the entry cached before and \<open>small\<close> the thumbnail of the stored
  descriptor. The manager with an older \<open>small\<close> cached over a store that holds a newer
  one: the entry of \<open>small\<close> is replaced by the thumbnail of the stored descriptor.
\<close>

theorem all_merges_descriptors_into_cache_witness:
  "(\<exists>c. all ref_env m_large_cached w_small =
          (Inr c, m_large_cached\<lparr>thumbnails := c\<rparr>,
           \<lparr>calls = [GetThumbnails 0 (Some ''avatars/tests.png'')], state = state w_small\<rparr>)
       \<and> dom c = {''large'', ''small''}
       \<and> c ''large'' = Some (Thumbnail (Some md_large) 0)
       \<and> c ''small'' = Some (Thumbnail (Some md_small) 0))
   \<and> (\<exists>c. fst (all ref_env m_small_cached
                  \<lparr>calls = [],
                   state = \<lparr>descriptors = [md_small\<lparr>name := ''small_i''\<rparr>],
                            blobs = [''small_i''], counter = 2\<rparr>\<rparr>) = Inr c
       \<and> c ''small'' = Some (Thumbnail (Some (md_small\<lparr>name := ''small_i''\<rparr>)) 0)
       \<and> thumbnails m_small_cached ''small'' = Some (Thumbnail (Some md_small) 0))"
proof -
  let ?w = "\<lparr>calls = [],
             state = \<lparr>descriptors = [md_small\<lparr>name := ''small_i''\<rparr>],
                      blobs = [''small_i''], counter = 2\<rparr>\<rparr>"
  have h: "get_thumbnails ref_env (metadata_backend m_large_cached) (source_image m_large_cached)
             (state w_small) = (Inr [md_small], state w_small)"
    by (simp add: store_defs manager_defs)
  have l: "''large'' \<notin> size ` set [md_small]"
    by (simp add: md_small_def)
  have i: "distinct (map size [md_small])" and j: "md_small \<in> set [md_small]"
    by simp_all
  from all_merges_descriptors_into_cache [OF h] obtain c where
    c: "all ref_env m_large_cached w_small =
          (Inr c, m_large_cached\<lparr>thumbnails := c\<rparr>,
           \<lparr>calls = calls w_small
              @ [GetThumbnails (metadata_backend m_large_cached) (source_image m_large_cached)],
            state = state w_small\<rparr>)"
    and d: "dom c = dom (thumbnails m_large_cached) \<union> size ` set [md_small]"
    and e: "distinct (map size [md_small]) \<longrightarrow>
              (\<forall>md \<in> set [md_small]. c (size md) = Some (Thumbnail (Some md) (storage m_large_cached)))"
    and k: "\<forall>s. s \<notin> size ` set [md_small] \<longrightarrow> c s = thumbnails m_large_cached s"
    by blast
  from k l have "c ''large'' = thumbnails m_large_cached ''large''"
    by blast
  moreover from e i j
  have "c (size md_small) = Some (Thumbnail (Some md_small) (storage m_large_cached))"
    by blast
  ultimately have first: "all ref_env m_large_cached w_small =
          (Inr c, m_large_cached\<lparr>thumbnails := c\<rparr>,
           \<lparr>calls = [GetThumbnails 0 (Some ''avatars/tests.png'')], state = state w_small\<rparr>)
       \<and> dom c = {''large'', ''small''}
       \<and> c ''large'' = Some (Thumbnail (Some md_large) 0)
       \<and> c ''small'' = Some (Thumbnail (Some md_small) 0)"
    using c d by (simp add: store_defs manager_defs insert_commute)
  have h': "get_thumbnails ref_env (metadata_backend m_small_cached) (source_image m_small_cached)
              (state ?w) = (Inr [md_small\<lparr>name := ''small_i''\<rparr>], state ?w)"
    by (simp add: store_defs manager_defs)
  from all_merges_descriptors_into_cache [OF h'] obtain c' where
    c': "all ref_env m_small_cached ?w =
          (Inr c', m_small_cached\<lparr>thumbnails := c'\<rparr>,
           \<lparr>calls = calls ?w
              @ [GetThumbnails (metadata_backend m_small_cached) (source_image m_small_cached)],
            state = state ?w\<rparr>)"
    and e': "distinct (map size [md_small\<lparr>name := ''small_i''\<rparr>]) \<longrightarrow>
              (\<forall>md \<in> set [md_small\<lparr>name := ''small_i''\<rparr>].
                 c' (size md) = Some (Thumbnail (Some md) (storage m_small_cached)))"
    by blast
  from e' have "c' (size (md_small\<lparr>name := ''small_i''\<rparr>))
                = Some (Thumbnail (Some (md_small\<lparr>name := ''small_i''\<rparr>)) (storage m_small_cached))"
    by simp
  with c' have second: "fst (all ref_env m_small_cached ?w) = Inr c'
       \<and> c' ''small'' = Some (Thumbnail (Some (md_small\<lparr>name := ''small_i''\<rparr>)) 0)
       \<and> thumbnails m_small_cached ''small'' = Some (Thumbnail (Some md_small) 0)"
    by (simp add: store_defs manager_defs)
  from first second show ?thesis
    by blast
qed

section \<open>Fallback images\<close>

text \<open>
  C5. For a manager whose source image is not bound and a registered size, attribute
  access returns, without error and without touching manager or backends: a
  \<open>FallbackImage\<close> of the configured URL when the size's entry has a non-empty
  \<open>FALLBACK_IMAGE_URL\<close>, and the \<open>url\<close> of that handle is the configured URL; a \<open>Thumbnail\<close>
  with no metadata when the entry has no fallback URL (or an empty one, which Python
  treats as false), and only the later access to \<open>url\<close> of that handle fails, with
  \<open>ValueError\<close>.
\<close>

theorem getattr_unbound_fallback_or_empty_thumbnail:
  assumes "\<not> bound (source_image m)" and "SIZES nm = Some spec"
  shows "(\<forall>u. FALLBACK_IMAGE_URL spec = Some u \<and> u \<noteq> [] \<longrightarrow>
            getattr SIZES env m nm w = (Inr (FallbackImage u), m, w)
            \<and> url storage_url (FallbackImage u) = Inr u)
       \<and> (FALLBACK_IMAGE_URL spec = None \<or> FALLBACK_IMAGE_URL spec = Some [] \<longrightarrow>
            getattr SIZES env m nm w = (Inr (Thumbnail None (storage m)), m, w)
            \<and> url storage_url (Thumbnail None (storage m)) = Inl ValueError)"
  using assms by (auto simp: getattr_def url_def)

text \<open>
  The manager with no file, as in \<open>test_fallback_image\<close>: \<open>default\<close> gives the fallback
  image, \<open>large\<close> gives an empty thumbnail whose \<open>url\<close> raises.
\<close>

theorem getattr_unbound_fallback_or_empty_thumbnail_witness:
  "getattr SIZES0 ref_env m_nofile ''default'' w0
     = (Inr (FallbackImage ''/static/default.png''), m_nofile, w0)
   \<and> url (\<lambda>st p. ''/media/'' @ p) (FallbackImage ''/static/default.png'')
     = Inr ''/static/default.png''
   \<and> getattr SIZES0 ref_env m_nofile ''large'' w0 = (Inr (Thumbnail None 0), m_nofile, w0)
   \<and> url (\<lambda>st p. ''/media/'' @ p) (Thumbnail None 0) = Inl ValueError"
proof -
  have h: "\<not> bound (source_image m_nofile)"
    by (simp add: m_nofile_def init_def bound_def)
  have d: "SIZES0 ''default'' = Some \<lparr>FALLBACK_IMAGE_URL = Some ''/static/default.png''\<rparr>"
    by (simp add: SIZES0_def)
  have l: "SIZES0 ''large'' = Some \<lparr>FALLBACK_IMAGE_URL = None\<rparr>"
    by (simp add: SIZES0_def)
  have s: "storage m_nofile = 0"
    by (simp add: m_nofile_def init_def)
  from getattr_unbound_fallback_or_empty_thumbnail
         [where SIZES = SIZES0 and m = m_nofile and env = ref_env and w = w0
            and storage_url = "\<lambda>st p. ''/media/'' @ p", OF h d]
       getattr_unbound_fallback_or_empty_thumbnail
         [where SIZES = SIZES0 and m = m_nofile and env = ref_env and w = w0
            and storage_url = "\<lambda>st p. ''/media/'' @ p", OF h l]
       s
  show ?thesis by simp
qed

section \<open>The fresh cache\<close>

text \<open>
  C6. The claim: a freshly constructed manager's cache is in a nil state that differs from
  an empty mapping, and only a query moves it to a mapping; \<open>test_thumbnails_cache\<close>
  asserts \<open>_thumbnails\<close> to be \<open>None\<close> on a fresh manager. The code: \<open>__init__\<close> sets the
  cache to the empty dictionary, for any arguments, and a manager that has queried a store
  with nothing in it is equal to the fresh manager, so the two states are not told apart.
\<close>

theorem init_cache_is_the_empty_dict:
  "thumbnails (init mb st src) = Map.empty
   \<and> fst (snd (all ref_env (init 0 0 (Some ''avatars/tests.png'')) w0))
       = init 0 0 (Some ''avatars/tests.png'')"
  by (simp add: manager_defs store_defs Let_def)

section \<open>Batch prefetch\<close>

text \<open>
  C7. When \<open>fetch_thumbnails\<close> is called with at least one image and none of the images'
  metadata backends supports the bulk query, the call fails with \<open>NotImplementedError\<close>,
  and managers, backend state and call log are as before the call: no query of any kind
  was made, per image or in bulk.
\<close>

theorem fetch_unsupported_backend_fails_without_queries:
  assumes "images \<noteq> []"
    and "\<forall>m \<in> set images. \<not> supports_batch bk (metadata_backend m)"
  shows "fetch_thumbnails bk images sizes w = (Inl NotImplementedError, images, w)"
proof -
  from assms(1) have "remdups (map metadata_backend images) \<noteq> []"
    by simp
  then obtain g gs where gs: "remdups (map metadata_backend images) = g # gs"
    by (cases "remdups (map metadata_backend images)") auto
  then have "g \<in> set (remdups (map metadata_backend images))"
    by simp
  then have "g \<in> metadata_backend ` set images"
    by simp
  with assms(2) have "\<not> supports_batch bk g"
    by auto
  with gs show ?thesis
    by (simp add: fetch_thumbnails_def)
qed

text \<open>
  Two managers on the table-backed backend, as in \<open>test_fetch_non_redis\<close>: the call fails
  and the log stays empty.
\<close>

theorem fetch_unsupported_backend_fails_without_queries_witness:
  "fetch_thumbnails ref_backends [m_avatar, m_small_cached] None w_small
     = (Inl NotImplementedError, [m_avatar, m_small_cached], w_small)
   \<and> calls w_small = []"
proof -
  have n: "[m_avatar, m_small_cached] \<noteq> []"
    by simp
  have u: "\<forall>m \<in> set [m_avatar, m_small_cached]. \<not> supports_batch ref_backends (metadata_backend m)"
    by (simp add: ref_backends_def store_defs init_def)
  from fetch_unsupported_backend_fails_without_queries [OF n u]
  show ?thesis by (simp add: w_small_def)
qed

end
